theory Spec2Isabelle
  imports Main "HOL-Library.AList"
begin

section \<open>The wrapper \<open>grdlandmask\<close> of pygmt/src/grdlandmask.py\<close>

text \<open>
  The module holds one function, \<open>grdlandmask(**kwargs)\<close>. Its body checks that the
  options \<open>I\<close> and \<open>R\<close> are among the keyword arguments, then, inside a scoped temporary
  file and a scoped session of the GMT library, fills in the default output grid, builds
  the argument string, calls the module dispatcher, and finally either loads the grid
  written to the temporary file or returns \<open>None\<close>.

  The model is the body of the function (lines 78 to 96), applied to the dictionary
  \<open>kwargs\<close> that the body receives. The helpers and libraries it calls (\<open>GMTTempFile\<close>,
  \<open>Session\<close>, \<open>build_arg_string\<close>, \<open>xarray\<close>) are not part of the file: they are
  parameters of the model, and each call is recorded in a trace. The calls into the
  external library (the session, the module dispatcher, reading the grid file) may
  return or raise; the two helpers of the package, the temporary file and the rendering
  of the argument string, return.
\<close>

subsection \<open>Python values and the keyword dictionary\<close>

text \<open>
  The values that keyword arguments are bound to. Comparing with \<open>==\<close> a string and a
  value that is not a string gives \<open>False\<close> in Python, as the equality of this datatype
  does.
\<close>

datatype pyval = PNone | PBool bool | PInt int | PStr string | PList "pyval list"

text \<open>
  A dictionary keeps its keys in insertion order. \<open>kwargs.update({k: v})\<close> overwrites the
  value where the key is present and appends the pair otherwise, which is what
  \<^const>\<open>AList.update\<close> does.
\<close>

type_synonym kwargs = "(string \<times> pyval) list"

definition keys :: "kwargs \<Rightarrow> string list" where
  "keys kw = map fst kw"

subsection \<open>Exceptions\<close>

text \<open>
  \<open>GMTInvalidInput\<close> is raised by the wrapper's own check, \<open>KeyError\<close> is what the
  subscript \<open>kwargs["G"]\<close> raises on a missing key, and \<open>External e\<close> is an exception
  \<open>e\<close> that came out of a call to a collaborator.
\<close>

datatype 'e exn = GMTInvalidInput string | KeyError string | External 'e

subsection \<open>Collaborators and the trace of their calls\<close>

text \<open>
  What each collaborator does in a run. A call into the external library returns
  (\<open>Inr\<close>) or raises (\<open>Inl\<close>). \<open>'e\<close> are the exceptions of the library, \<open>'h\<close> is the
  lazily opened data array of \<open>xr.open_dataarray\<close>, \<open>'a\<close> the array that \<open>load()\<close> has
  read into memory. The temporary file and \<open>build_arg_string\<close> are helpers of the package
  and are taken to return: the specification puts every failure after the validation
  on the external library.
  \<^item> \<open>tempfile_name suffix\<close>: \<open>tmpfile.name\<close> of \<open>GMTTempFile(suffix=...)\<close>.
  \<^item> \<open>build_arg_string kwargs\<close>: the helper that renders the dictionary.
  \<^item> \<open>session_enter\<close>, \<open>session_exit\<close>: \<open>Session()\<close> entered and left.
  \<^item> \<open>call_module name args\<close>: \<open>lib.call_module\<close>, the module dispatcher.
  \<^item> \<open>open_dataarray path\<close>, \<open>close h\<close>: \<open>xr.open_dataarray\<close> entered and left.
  \<^item> \<open>load h\<close>: \<open>dataarray.load()\<close>; \<open>gmt a\<close>: reading the accessor \<open>result.gmt\<close>.
\<close>

record ('e, 'h, 'a) collaborators =
  tempfile_name :: "string \<Rightarrow> string"
  build_arg_string :: "kwargs \<Rightarrow> string"
  session_enter :: "'e + unit"
  session_exit :: "'e + unit"
  call_module :: "string \<Rightarrow> string \<Rightarrow> 'e + unit"
  open_dataarray :: "pyval \<Rightarrow> 'e + 'h"
  load :: "'h \<Rightarrow> 'e + 'a"
  gmt :: "'a \<Rightarrow> 'e + unit"
  close :: "'h \<Rightarrow> 'e + unit"

datatype ('h, 'a) event =
    GMTTempFile_Enter string
  | GMTTempFile_Exit string
  | Session_Enter
  | Session_Exit
  | Build_Arg_String kwargs
  | Call_Module string string
  | Open_DataArray pyval
  | Load 'h
  | Gmt 'a
  | Close 'h

text \<open>
  A run of a piece of code: how it ends (a value, or an exception) and the calls it
  made, oldest first.
\<close>

type_synonym ('e, 'h, 'a, 'r) run = "('e exn + 'r) \<times> ('h, 'a) event list"

definition ret :: "'r \<Rightarrow> ('e, 'h, 'a, 'r) run" where
  "ret x = (Inr x, [])"

definition raise :: "'e exn \<Rightarrow> ('e, 'h, 'a, 'r) run" where
  "raise x = (Inl x, [])"

text \<open>A call: it is recorded, and what it raises reaches the caller as it is.\<close>

definition call :: "('h, 'a) event \<Rightarrow> 'e + 'r \<Rightarrow> ('e, 'h, 'a, 'r) run" where
  "call ev out = (case out of Inl e \<Rightarrow> (Inl (External e), [ev]) | Inr v \<Rightarrow> (Inr v, [ev]))"

text \<open>The subscript \<open>kwargs[k]\<close>: no call is made, a missing key raises.\<close>

definition getitem :: "kwargs \<Rightarrow> string \<Rightarrow> ('e, 'h, 'a, pyval) run" where
  "getitem kw k = (case map_of kw k of None \<Rightarrow> raise (KeyError k) | Some v \<Rightarrow> ret v)"

text \<open>Sequencing: an exception ends the sequence, the traces follow one another.\<close>

definition bind_run ::
  "('e, 'h, 'a, 'r) run \<Rightarrow> ('r \<Rightarrow> ('e, 'h, 'a, 's) run) \<Rightarrow> ('e, 'h, 'a, 's) run" where
  "bind_run m f =
     (case m of
        (Inl x, t) \<Rightarrow> (Inl x, t)
      | (Inr v, t) \<Rightarrow> (case f v of (r, t') \<Rightarrow> (r, t @ t')))"

text \<open>
  The statement \<open>with enter as v: body\<close>. When entering raises, the body does not run and
  there is no exit call. Otherwise the body runs and the exit call is made whether the
  body returned or raised; an exception raised by the exit call replaces the outcome of
  the body, and an exit call that returns keeps it (the context managers used here do not
  swallow exceptions).
\<close>

definition with_stmt ::
  "('e, 'h, 'a, 'v) run \<Rightarrow> ('v \<Rightarrow> ('e, 'h, 'a, unit) run) \<Rightarrow>
   ('v \<Rightarrow> ('e, 'h, 'a, 'r) run) \<Rightarrow> ('e, 'h, 'a, 'r) run" where
  "with_stmt enter leave body =
     (case enter of
        (Inl x, t) \<Rightarrow> (Inl x, t)
      | (Inr v, t) \<Rightarrow>
          (case body v of (r, t1) \<Rightarrow>
             (case leave v of
                (Inl x', t2) \<Rightarrow> (Inl x', t @ t1 @ t2)
              | (Inr _, t2) \<Rightarrow> (r, t @ t1 @ t2))))"

subsection \<open>The function\<close>

text \<open>Lines 83 and 84: the temporary file is the output grid when \<open>G\<close> is not a key.\<close>

definition default_outgrid :: "kwargs \<Rightarrow> string \<Rightarrow> kwargs" where
  "default_outgrid kwargs name =
     (if ''G'' \<notin> set (keys kwargs) then AList.update ''G'' (PStr name) kwargs else kwargs)"

text \<open>Lines 82 to 87: the session block; \<open>outgrid\<close> is what the rest of the body reads.\<close>

definition session_block ::
  "('e, 'h, 'a) collaborators \<Rightarrow> kwargs \<Rightarrow> string \<Rightarrow> ('e, 'h, 'a, pyval) run" where
  "session_block c kwargs name =
     with_stmt (call Session_Enter (session_enter c))
       (\<lambda>lib. call Session_Exit (session_exit c))
       (\<lambda>lib.
          bind_run (getitem (default_outgrid kwargs name) ''G'') (\<lambda>outgrid.
          bind_run (call (Build_Arg_String (default_outgrid kwargs name))
                      (Inr (build_arg_string c (default_outgrid kwargs name)))) (\<lambda>arg_str.
          bind_run (call (Call_Module ''grdlandmask'' arg_str)
                      (call_module c ''grdlandmask'' arg_str)) (\<lambda>_.
          ret outgrid))))"

text \<open>Lines 89 to 94: load the grid from the temporary file, or give \<open>None\<close>.\<close>

definition result_block ::
  "('e, 'h, 'a) collaborators \<Rightarrow> pyval \<Rightarrow> string \<Rightarrow> ('e, 'h, 'a, 'a option) run" where
  "result_block c outgrid name =
     (if outgrid = PStr name then
        with_stmt (call (Open_DataArray outgrid) (open_dataarray c outgrid))
          (\<lambda>dataarray. call (Close dataarray) (close c dataarray))
          (\<lambda>dataarray.
             bind_run (call (Load dataarray) (load c dataarray)) (\<lambda>result.
             bind_run (call (Gmt result) (gmt c result)) (\<lambda>_.
             ret (Some result))))
      else ret None)"

definition grdlandmask ::
  "('e, 'h, 'a) collaborators \<Rightarrow> kwargs \<Rightarrow> ('e, 'h, 'a, 'a option) run" where
  "grdlandmask c kwargs =
     (if ''I'' \<notin> set (keys kwargs) \<or> ''R'' \<notin> set (keys kwargs) then
        raise (GMTInvalidInput ''Both 'region' and 'spacing' must be specified.'')
      else
        with_stmt (call (GMTTempFile_Enter ''.nc'') (Inr (tempfile_name c ''.nc'')))
          (\<lambda>name. call (GMTTempFile_Exit name) (Inr ()))
          (\<lambda>name.
             bind_run (session_block c kwargs name) (\<lambda>outgrid.
             result_block c outgrid name)))"

subsection \<open>Reading a trace\<close>

text \<open>
  \<open>raised c ev\<close> is the exception that the call recorded as \<open>ev\<close> raises in the run
  described by \<open>c\<close>, if it raises.
\<close>

definition error_of :: "'e + 'r \<Rightarrow> 'e option" where
  "error_of out = (case out of Inl e \<Rightarrow> Some e | Inr _ \<Rightarrow> None)"

fun raised :: "('e, 'h, 'a) collaborators \<Rightarrow> ('h, 'a) event \<Rightarrow> 'e option" where
  "raised c (GMTTempFile_Enter suffix) = None"
| "raised c (GMTTempFile_Exit name) = None"
| "raised c (Build_Arg_String kw) = None"
| "raised c Session_Enter = error_of (session_enter c)"
| "raised c Session_Exit = error_of (session_exit c)"
| "raised c (Call_Module name args) = error_of (call_module c name args)"
| "raised c (Open_DataArray path) = error_of (open_dataarray c path)"
| "raised c (Load h) = error_of (load c h)"
| "raised c (Gmt a) = error_of (gmt c a)"
| "raised c (Close h) = error_of (close c h)"

text \<open>The calls that acquire or release the temporary file.\<close>

fun tempfile_event :: "('h, 'a) event \<Rightarrow> bool" where
  "tempfile_event (GMTTempFile_Enter suffix) = True"
| "tempfile_event (GMTTempFile_Exit name) = True"
| "tempfile_event ev = False"

text \<open>The calls into the GMT library: opening and closing the session, and the dispatcher.\<close>

fun session_event :: "('h, 'a) event \<Rightarrow> bool" where
  "session_event Session_Enter = True"
| "session_event Session_Exit = True"
| "session_event (Call_Module name args) = True"
| "session_event ev = False"

fun dispatch :: "('h, 'a) event \<Rightarrow> bool" where
  "dispatch (Call_Module name args) = True"
| "dispatch ev = False"

subsection \<open>A sample run\<close>

text \<open>
  Collaborators that all return: the temporary file is \<open>pygmt-tmp.nc\<close>, the argument
  string lists the options, and the grid that is loaded has four nodes.
\<close>

definition quiet :: "(string, nat, int list) collaborators" where
  "quiet =
     \<lparr>tempfile_name = (\<lambda>suffix. ''pygmt-tmp'' @ suffix),
      build_arg_string = (\<lambda>kw. concat (map (\<lambda>p. ''-'' @ fst p @ '' '') kw)),
      session_enter = Inr (),
      session_exit = Inr (),
      call_module = (\<lambda>name args. Inr ()),
      open_dataarray = (\<lambda>path. Inr 0),
      load = (\<lambda>h. Inr [1, 0, 1, 1]),
      gmt = (\<lambda>a. Inr ()),
      close = (\<lambda>h. Inr ())\<rparr>"

section \<open>Outcome and trace of the blocks\<close>

lemma fst_ret: "fst (ret x) = Inr x" and snd_ret: "snd (ret x) = []"
  by (simp_all add: ret_def)

lemma fst_raise: "fst (raise x) = Inl x" and snd_raise: "snd (raise x) = []"
  by (simp_all add: raise_def)

lemma fst_call: "fst (call ev out) = (case out of Inl e \<Rightarrow> Inl (External e) | Inr v \<Rightarrow> Inr v)"
  and snd_call: "snd (call ev out) = [ev]"
  by (simp_all add: call_def split: sum.split)

lemma fst_bind_run:
  "fst (bind_run m f) = (case fst m of Inl x \<Rightarrow> Inl x | Inr v \<Rightarrow> fst (f v))"
  by (cases m) (simp add: bind_run_def split: sum.split prod.split)

lemma snd_bind_run:
  "snd (bind_run m f) = (case fst m of Inl x \<Rightarrow> snd m | Inr v \<Rightarrow> snd m @ snd (f v))"
  by (cases m) (simp add: bind_run_def split: sum.split prod.split)

lemma fst_with_stmt:
  "fst (with_stmt enter leave body) =
     (case fst enter of
        Inl x \<Rightarrow> Inl x
      | Inr v \<Rightarrow> (case fst (leave v) of Inl x' \<Rightarrow> Inl x' | Inr u \<Rightarrow> fst (body v)))"
  by (cases enter) (simp add: with_stmt_def split: sum.split prod.split)

lemma snd_with_stmt:
  "snd (with_stmt enter leave body) =
     (case fst enter of
        Inl x \<Rightarrow> snd enter
      | Inr v \<Rightarrow> snd enter @ snd (body v) @ snd (leave v))"
  by (cases enter) (simp add: with_stmt_def split: sum.split prod.split)

lemmas run_simps = fst_ret snd_ret fst_raise snd_raise fst_call snd_call
  fst_bind_run snd_bind_run fst_with_stmt snd_with_stmt

text \<open>A key is in the dictionary exactly when the subscript finds a value.\<close>

lemma keys_map_of: "k \<in> set (keys kw) \<longleftrightarrow> (\<exists>v. map_of kw k = Some v)"
  by (induction kw) (auto simp: keys_def)

lemma outgrid_absent:
  "''G'' \<notin> set (keys kw) \<Longrightarrow> map_of (default_outgrid kw n) ''G'' = Some (PStr n)"
  by (simp add: default_outgrid_def update_conv')

lemma outgrid_present: "map_of kw ''G'' = Some v \<Longrightarrow> default_outgrid kw n = kw"
  by (simp add: default_outgrid_def keys_map_of)

text \<open>After lines 83 and 84 the key \<open>G\<close> is bound: the subscript of line 85 finds it.\<close>

lemma outgrid_bound: "\<exists>v. map_of (default_outgrid kw n) ''G'' = Some v"
  by (cases "''G'' \<in> set (keys kw)") (auto simp: outgrid_absent outgrid_present keys_map_of)

lemma fst_getitem: "map_of kw k = Some v \<Longrightarrow> fst (getitem kw k) = Inr v"
  and snd_getitem: "snd (getitem kw k) = []"
  by (simp_all add: getitem_def ret_def raise_def split: option.split)

lemma snd_session_block:
  "snd (session_block c kw n) =
     (case session_enter c of
        Inl e \<Rightarrow> [Session_Enter]
      | Inr u \<Rightarrow>
          [Session_Enter, Build_Arg_String (default_outgrid kw n),
           Call_Module ''grdlandmask'' (build_arg_string c (default_outgrid kw n)),
           Session_Exit])"
  using outgrid_bound[of kw n]
  by (auto simp: session_block_def run_simps fst_getitem snd_getitem split: sum.split)

lemma fst_session_block:
  assumes "map_of (default_outgrid kw n) ''G'' = Some v"
  shows "fst (session_block c kw n) =
     (case session_enter c of
        Inl e \<Rightarrow> Inl (External e)
      | Inr u \<Rightarrow>
          (case session_exit c of
             Inl e \<Rightarrow> Inl (External e)
           | Inr u' \<Rightarrow>
               (case call_module c ''grdlandmask''
                       (build_arg_string c (default_outgrid kw n)) of
                  Inl e \<Rightarrow> Inl (External e)
                | Inr u'' \<Rightarrow> Inr v)))"
  using assms
  by (simp add: session_block_def run_simps fst_getitem snd_getitem split: sum.split)

lemma snd_result_block:
  "snd (result_block c outgrid n) =
     (if outgrid = PStr n then
        (case open_dataarray c (PStr n) of
           Inl e \<Rightarrow> [Open_DataArray (PStr n)]
         | Inr h \<Rightarrow>
             Open_DataArray (PStr n) # Load h #
             (case load c h of Inl e \<Rightarrow> [] | Inr a \<Rightarrow> [Gmt a]) @ [Close h])
      else [])"
  by (simp add: result_block_def run_simps split: sum.split)

lemma fst_result_block:
  "fst (result_block c outgrid n) =
     (if outgrid = PStr n then
        (case open_dataarray c (PStr n) of
           Inl e \<Rightarrow> Inl (External e)
         | Inr h \<Rightarrow>
             (case close c h of
                Inl e \<Rightarrow> Inl (External e)
              | Inr u \<Rightarrow>
                  (case load c h of
                     Inl e \<Rightarrow> Inl (External e)
                   | Inr a \<Rightarrow>
                       (case gmt c a of
                          Inl e \<Rightarrow> Inl (External e)
                        | Inr u' \<Rightarrow> Inr (Some a)))))
      else Inr None)"
  by (simp add: result_block_def run_simps split: sum.split)

text \<open>The outcome and the trace of a call that passes the check of line 78.\<close>

lemma fst_valid:
  assumes "''I'' \<in> set (keys kw)" "''R'' \<in> set (keys kw)"
  shows "fst (grdlandmask c kw) =
     (case fst (session_block c kw (tempfile_name c ''.nc'')) of
        Inl x \<Rightarrow> Inl x
      | Inr outgrid \<Rightarrow> fst (result_block c outgrid (tempfile_name c ''.nc'')))"
  using assms by (simp add: grdlandmask_def run_simps split: sum.split)

lemma snd_valid:
  assumes "''I'' \<in> set (keys kw)" "''R'' \<in> set (keys kw)"
  shows "snd (grdlandmask c kw) =
     GMTTempFile_Enter ''.nc'' #
     (snd (session_block c kw (tempfile_name c ''.nc'')) @
      (case fst (session_block c kw (tempfile_name c ''.nc'')) of
         Inl x \<Rightarrow> []
       | Inr outgrid \<Rightarrow> snd (result_block c outgrid (tempfile_name c ''.nc'')))) @
     [GMTTempFile_Exit (tempfile_name c ''.nc'')]"
  using assms by (simp add: grdlandmask_def run_simps split: sum.split)

section \<open>Facts shared by the properties\<close>

lemma valid_not_invalid_input:
  assumes "''I'' \<in> set (keys kw)" "''R'' \<in> set (keys kw)"
  shows "fst (grdlandmask c kw) \<noteq> Inl (GMTInvalidInput m)"
proof -
  obtain v where v: "map_of (default_outgrid kw (tempfile_name c ''.nc'')) ''G'' = Some v"
    using outgrid_bound by blast
  show ?thesis
    using assms
    by (simp add: fst_valid fst_session_block[OF v] fst_result_block split: sum.split)
qed

lemma returns_valid:
  assumes "fst (grdlandmask c kw) = Inr r"
  shows "''I'' \<in> set (keys kw) \<and> ''R'' \<in> set (keys kw)"
  using assms by (auto simp: grdlandmask_def fst_raise split: if_splits)

lemma session_block_returns:
  assumes "fst (session_block c kw n) = Inr v"
  shows "map_of (default_outgrid kw n) ''G'' = Some v"
proof -
  obtain v' where v': "map_of (default_outgrid kw n) ''G'' = Some v'"
    using outgrid_bound by blast
  from assms have "v' = v"
    by (simp add: fst_session_block[OF v'] split: sum.splits)
  with v' show ?thesis by simp
qed

text \<open>A call that returns went through both blocks.\<close>

lemma returns_cases:
  assumes "fst (grdlandmask c kw) = Inr r"
  shows "\<exists>v. map_of (default_outgrid kw (tempfile_name c ''.nc'')) ''G'' = Some v \<and>
           fst (session_block c kw (tempfile_name c ''.nc'')) = Inr v \<and>
           fst (result_block c v (tempfile_name c ''.nc'')) = Inr r"
  using assms returns_valid[OF assms]
  by (auto simp: fst_valid session_block_returns split: sum.splits)

lemma result_block_some:
  assumes "fst (result_block c v n) = Inr (Some a)"
  shows "\<exists>h. v = PStr n \<and> open_dataarray c (PStr n) = Inr h \<and> load c h = Inr a \<and>
           gmt c a = Inr () \<and> close c h = Inr () \<and>
           snd (result_block c v n) = [Open_DataArray (PStr n), Load h, Gmt a, Close h]"
  using assms
  by (auto simp: fst_result_block snd_result_block split: sum.splits if_splits)

lemma session_block_raise:
  assumes "fst (session_block c kw n) = Inl x"
  shows "\<exists>e. x = External e \<and> (\<exists>ev \<in> set (snd (session_block c kw n)). raised c ev = Some e)"
proof -
  obtain v where v: "map_of (default_outgrid kw n) ''G'' = Some v"
    using outgrid_bound by blast
  show ?thesis
    using assms
    by (auto simp: fst_session_block[OF v] snd_session_block error_of_def
        conj_disj_distribR ex_disj_distrib split: sum.splits)
qed

lemma result_block_raise:
  assumes "fst (result_block c outgrid n) = Inl x"
  shows "\<exists>e. x = External e \<and> (\<exists>ev \<in> set (snd (result_block c outgrid n)). raised c ev = Some e)"
  using assms
  by (auto simp: fst_result_block snd_result_block error_of_def
      conj_disj_distribR ex_disj_distrib split: sum.splits if_splits)

lemma session_block_no_tempfile: "\<forall>ev\<in>set (snd (session_block c kw n)). \<not> tempfile_event ev"
  by (auto simp: snd_session_block split: sum.splits)

lemma result_block_no_tempfile: "\<forall>ev\<in>set (snd (result_block c v n)). \<not> tempfile_event ev"
  by (auto simp: snd_result_block split: sum.splits if_splits)

lemma result_block_no_session: "\<forall>ev\<in>set (snd (result_block c v n)). \<not> session_event ev"
  by (auto simp: snd_result_block split: sum.splits if_splits)

text \<open>The sample runs.\<close>

lemmas eval_defs = grdlandmask_def session_block_def result_block_def default_outgrid_def
  keys_def ret_def raise_def call_def bind_run_def with_stmt_def getitem_def quiet_def

lemma run_default:
  "grdlandmask quiet [(''I'', PStr ''0.5''), (''R'', PStr ''125/130/30/35'')] =
     (Inr (Some [1, 0, 1, 1]),
      [GMTTempFile_Enter ''.nc'', Session_Enter,
       Build_Arg_String
         [(''I'', PStr ''0.5''), (''R'', PStr ''125/130/30/35''), (''G'', PStr ''pygmt-tmp.nc'')],
       Call_Module ''grdlandmask'' ''-I -R -G '', Session_Exit,
       Open_DataArray (PStr ''pygmt-tmp.nc''), Load 0, Gmt [1, 0, 1, 1], Close 0,
       GMTTempFile_Exit ''pygmt-tmp.nc''])"
  by (simp add: eval_defs)

lemma run_same_name:
  "grdlandmask quiet
     [(''I'', PStr ''0.5''), (''R'', PStr ''125/130/30/35''), (''G'', PStr ''pygmt-tmp.nc'')] =
     (Inr (Some [1, 0, 1, 1]),
      [GMTTempFile_Enter ''.nc'', Session_Enter,
       Build_Arg_String
         [(''I'', PStr ''0.5''), (''R'', PStr ''125/130/30/35''), (''G'', PStr ''pygmt-tmp.nc'')],
       Call_Module ''grdlandmask'' ''-I -R -G '', Session_Exit,
       Open_DataArray (PStr ''pygmt-tmp.nc''), Load 0, Gmt [1, 0, 1, 1], Close 0,
       GMTTempFile_Exit ''pygmt-tmp.nc''])"
  by (simp add: eval_defs)

lemma run_outgrid_none:
  "grdlandmask quiet [(''I'', PStr ''0.5''), (''R'', PStr ''125/130/30/35''), (''G'', PNone)] =
     (Inr None,
      [GMTTempFile_Enter ''.nc'', Session_Enter,
       Build_Arg_String [(''I'', PStr ''0.5''), (''R'', PStr ''125/130/30/35''), (''G'', PNone)],
       Call_Module ''grdlandmask'' ''-I -R -G '', Session_Exit,
       GMTTempFile_Exit ''pygmt-tmp.nc''])"
  by (simp add: eval_defs)

lemma run_dispatch_raises:
  "grdlandmask (quiet\<lparr>call_module := \<lambda>name args. Inl ''GMTCLibError''\<rparr>)
      [(''I'', PStr ''0.5''), (''R'', PStr ''125/130/30/35'')] =
     (Inl (External ''GMTCLibError''),
      [GMTTempFile_Enter ''.nc'', Session_Enter,
       Build_Arg_String
         [(''I'', PStr ''0.5''), (''R'', PStr ''125/130/30/35''), (''G'', PStr ''pygmt-tmp.nc'')],
       Call_Module ''grdlandmask'' ''-I -R -G '', Session_Exit,
       GMTTempFile_Exit ''pygmt-tmp.nc''])"
  by (simp add: eval_defs)

lemma run_session_raises:
  "grdlandmask (quiet\<lparr>session_enter := Inl ''GMTCLibError''\<rparr>)
      [(''I'', PStr ''0.5''), (''R'', PStr ''125/130/30/35'')] =
     (Inl (External ''GMTCLibError''),
      [GMTTempFile_Enter ''.nc'', Session_Enter, GMTTempFile_Exit ''pygmt-tmp.nc''])"
  by (simp add: eval_defs)

section \<open>The validation check\<close>

text \<open>
  Claim C1. Whatever the keyword arguments and whatever the collaborators do,
  \<open>grdlandmask\<close> ends with the invalid-input error \<open>GMTInvalidInput\<close> exactly when a
  required option is missing, that is when \<open>I\<close> or \<open>R\<close> is not a key of \<open>kwargs\<close>.
\<close>

theorem invalid_input_iff_required_missing:
  "(\<exists>m. fst (grdlandmask c kwargs) = Inl (GMTInvalidInput m)) \<longleftrightarrow>
   (''I'' \<notin> set (keys kwargs) \<or> ''R'' \<notin> set (keys kwargs))"
proof (cases "''I'' \<in> set (keys kwargs) \<and> ''R'' \<in> set (keys kwargs)")
  case True
  then have "fst (grdlandmask c kwargs) \<noteq> Inl (GMTInvalidInput m)" for m
    by (simp add: valid_not_invalid_input)
  with True show ?thesis by simp
next
  case False
  then show ?thesis by (auto simp: grdlandmask_def fst_raise)
qed

theorem invalid_input_iff_required_missing_witness:
  "(\<exists>m. fst (grdlandmask quiet [(''I'', PStr ''0.5'')]) = Inl (GMTInvalidInput m)) \<and>
   (\<exists>m. fst (grdlandmask quiet [(''R'', PStr ''125/130/30/35'')]) = Inl (GMTInvalidInput m)) \<and>
   \<not> (\<exists>m. fst (grdlandmask quiet [(''I'', PStr ''0.5''), (''R'', PStr ''125/130/30/35'')]) =
            Inl (GMTInvalidInput m))"
  using invalid_input_iff_required_missing [of quiet "[(''I'', PStr ''0.5'')]"]
    invalid_input_iff_required_missing [of quiet "[(''R'', PStr ''125/130/30/35'')]"]
    invalid_input_iff_required_missing
      [of quiet "[(''I'', PStr ''0.5''), (''R'', PStr ''125/130/30/35'')]"]
  by (simp add: keys_def)

text \<open>
  Claim C5. The check comes before every effect: when \<open>I\<close> or \<open>R\<close> is missing, the call
  ends with the invalid-input error and its trace is empty, so that no temporary file
  was acquired, no session was opened and no call into the library was made.
\<close>

theorem validation_precedes_effects:
  assumes "''I'' \<notin> set (keys kwargs) \<or> ''R'' \<notin> set (keys kwargs)"
  shows "grdlandmask c kwargs =
     (Inl (GMTInvalidInput ''Both 'region' and 'spacing' must be specified.''), [])"
  using assms by (auto simp: grdlandmask_def raise_def)

theorem validation_precedes_effects_witness:
  "grdlandmask quiet [(''R'', PStr ''125/130/30/35''), (''G'', PStr ''mask.nc'')] =
     (Inl (GMTInvalidInput ''Both 'region' and 'spacing' must be specified.''), [])"
  using validation_precedes_effects
    [of "[(''R'', PStr ''125/130/30/35''), (''G'', PStr ''mask.nc'')]" quiet]
  by (simp add: keys_def)

text \<open>
  Claim C8. The check looks at the presence of the keys \<open>I\<close> and \<open>R\<close> and not at what
  they are bound to. Whatever the two values are, \<open>None\<close> included, the call does not
  end with the invalid-input error; it goes on to acquire the temporary file and to
  open the session, and when the session opens it reaches the dispatcher.
\<close>

theorem validation_checks_presence_only:
  assumes "map_of kw ''I'' = Some vi" "map_of kw ''R'' = Some vr"
  shows "(\<forall>m. fst (grdlandmask c kw) \<noteq> Inl (GMTInvalidInput m)) \<and>
         (\<exists>rest. snd (grdlandmask c kw) = GMTTempFile_Enter ''.nc'' # Session_Enter # rest) \<and>
         (session_enter c = Inr () \<longrightarrow>
            Call_Module ''grdlandmask''
              (build_arg_string c (default_outgrid kw (tempfile_name c ''.nc'')))
            \<in> set (snd (grdlandmask c kw)))"
proof -
  have k: "''I'' \<in> set (keys kw)" "''R'' \<in> set (keys kw)"
    using assms by (auto simp: keys_map_of)
  show ?thesis
    using k valid_not_invalid_input[OF k]
    by (auto simp: snd_valid snd_session_block split: sum.splits)
qed

theorem validation_checks_presence_only_witness:
  "(\<forall>m. fst (grdlandmask quiet [(''I'', PNone), (''R'', PNone)]) \<noteq> Inl (GMTInvalidInput m)) \<and>
   (\<exists>rest. snd (grdlandmask quiet [(''I'', PNone), (''R'', PNone)]) =
      GMTTempFile_Enter ''.nc'' # Session_Enter # rest) \<and>
   Call_Module ''grdlandmask'' ''-I -R -G ''
     \<in> set (snd (grdlandmask quiet [(''I'', PNone), (''R'', PNone)]))"
  using validation_checks_presence_only [of "[(''I'', PNone), (''R'', PNone)]" PNone PNone quiet]
  by (simp add: keys_def quiet_def default_outgrid_def)

text \<open>
  Claim C7. A call that passes the check raises nothing of its own: the subscript
  \<open>kwargs["G"]\<close> always finds the key, so the call either returns or ends with an
  exception that a recorded call into the external library (session, dispatcher,
  reading the grid) raised, handed on as it is.
\<close>

theorem errors_after_validation_are_external:
  assumes "''I'' \<in> set (keys kw)" "''R'' \<in> set (keys kw)"
  shows "(\<exists>r. fst (grdlandmask c kw) = Inr r) \<or>
    (\<exists>e. fst (grdlandmask c kw) = Inl (External e) \<and>
       (\<exists>ev \<in> set (snd (grdlandmask c kw)). raised c ev = Some e))"
proof (cases "fst (session_block c kw (tempfile_name c ''.nc''))")
  case (Inl x)
  from session_block_raise[OF Inl] assms Inl show ?thesis
    by (auto simp: fst_valid snd_valid)
next
  case v: (Inr v)
  show ?thesis
  proof (cases "fst (result_block c v (tempfile_name c ''.nc''))")
    case (Inl x)
    from result_block_raise[OF Inl] assms v Inl show ?thesis
      by (auto simp: fst_valid snd_valid)
  next
    case (Inr r)
    with assms v show ?thesis by (simp add: fst_valid)
  qed
qed

theorem errors_after_validation_are_external_witness:
  "fst (grdlandmask (quiet\<lparr>call_module := \<lambda>name args. Inl ''GMTCLibError''\<rparr>)
          [(''I'', PStr ''0.5''), (''R'', PStr ''125/130/30/35'')]) =
     Inl (External ''GMTCLibError'') \<and>
   (\<exists>ev \<in> set (snd (grdlandmask (quiet\<lparr>call_module := \<lambda>name args. Inl ''GMTCLibError''\<rparr>)
          [(''I'', PStr ''0.5''), (''R'', PStr ''125/130/30/35'')])).
      raised (quiet\<lparr>call_module := \<lambda>name args. Inl ''GMTCLibError''\<rparr>) ev =
        Some ''GMTCLibError'')"
  using errors_after_validation_are_external
    [of "[(''I'', PStr ''0.5''), (''R'', PStr ''125/130/30/35'')]"
      "quiet\<lparr>call_module := \<lambda>name args. Inl ''GMTCLibError''\<rparr>"]
  by (simp add: run_dispatch_raises keys_def)

section \<open>The temporary file and the call into the library\<close>

text \<open>
  Claim C6. On every call that passes the check the temporary file is acquired first
  and released last, once each, on every path: when the caller gave an output grid,
  so that the temporary file is not used, and when a call into the library raises.
\<close>

theorem tempfile_released_on_every_path:
  assumes "''I'' \<in> set (keys kw)" "''R'' \<in> set (keys kw)"
  shows "\<exists>mid. snd (grdlandmask c kw) =
           GMTTempFile_Enter ''.nc'' # mid @ [GMTTempFile_Exit (tempfile_name c ''.nc'')] \<and>
           (\<forall>ev\<in>set mid. \<not> tempfile_event ev)"
proof -
  define n where "n = tempfile_name c ''.nc''"
  define mid where "mid = snd (session_block c kw n) @
    (case fst (session_block c kw n) of
       Inl x \<Rightarrow> []
     | Inr outgrid \<Rightarrow> snd (result_block c outgrid n))"
  have "snd (grdlandmask c kw) = GMTTempFile_Enter ''.nc'' # mid @ [GMTTempFile_Exit n]"
    using assms unfolding mid_def n_def by (simp add: snd_valid)
  moreover have "\<forall>ev\<in>set mid. \<not> tempfile_event ev"
    using session_block_no_tempfile[of c kw n] result_block_no_tempfile[of c _ n]
    by (auto simp: mid_def split: sum.splits)
  ultimately show ?thesis unfolding n_def by blast
qed

theorem tempfile_released_on_every_path_witness:
  "(\<exists>mid. snd (grdlandmask (quiet\<lparr>call_module := \<lambda>name args. Inl ''GMTCLibError''\<rparr>)
            [(''I'', PStr ''0.5''), (''R'', PStr ''125/130/30/35'')]) =
       GMTTempFile_Enter ''.nc'' # mid @ [GMTTempFile_Exit ''pygmt-tmp.nc''] \<and>
     (\<forall>ev\<in>set mid. \<not> tempfile_event ev)) \<and>
   (\<exists>mid. snd (grdlandmask quiet
            [(''I'', PStr ''0.5''), (''R'', PStr ''125/130/30/35''), (''G'', PStr ''mask.nc'')]) =
       GMTTempFile_Enter ''.nc'' # mid @ [GMTTempFile_Exit ''pygmt-tmp.nc''] \<and>
     (\<forall>ev\<in>set mid. \<not> tempfile_event ev))"
  using tempfile_released_on_every_path
      [of "[(''I'', PStr ''0.5''), (''R'', PStr ''125/130/30/35'')]"
        "quiet\<lparr>call_module := \<lambda>name args. Inl ''GMTCLibError''\<rparr>"]
    tempfile_released_on_every_path
      [of "[(''I'', PStr ''0.5''), (''R'', PStr ''125/130/30/35''), (''G'', PStr ''mask.nc'')]"
        quiet]
  by (simp add: keys_def quiet_def)

text \<open>
  Claim C3, as the code has it. The claim says that the dispatcher is called exactly
  once on every call that passes the check; a call on which opening the session raises
  never reaches it. What holds: opening the session is the first call on the external
  engine. When it raises, the call ends with that exception and the dispatcher is not
  called. When it returns, the argument string is built from the keyword arguments with
  the default output grid filled in, the dispatcher is called once with the module name
  \<open>grdlandmask\<close> and that string, the session is closed, and the body makes no further
  call on the session.
\<close>

theorem dispatcher_called_once_in_session:
  assumes "''I'' \<in> set (keys kw)" "''R'' \<in> set (keys kw)"
  shows "(session_enter c = Inr () \<longrightarrow>
            (\<exists>rest. snd (grdlandmask c kw) =
               [GMTTempFile_Enter ''.nc'', Session_Enter,
                Build_Arg_String (default_outgrid kw (tempfile_name c ''.nc'')),
                Call_Module ''grdlandmask''
                  (build_arg_string c (default_outgrid kw (tempfile_name c ''.nc''))),
                Session_Exit] @ rest \<and>
               (\<forall>ev\<in>set rest. \<not> session_event ev))) \<and>
         (\<forall>e. session_enter c = Inl e \<longrightarrow>
            grdlandmask c kw =
              (Inl (External e),
               [GMTTempFile_Enter ''.nc'', Session_Enter,
                GMTTempFile_Exit (tempfile_name c ''.nc'')]))"
proof -
  define n where "n = tempfile_name c ''.nc''"
  have opened: "\<exists>rest. snd (grdlandmask c kw) =
      [GMTTempFile_Enter ''.nc'', Session_Enter, Build_Arg_String (default_outgrid kw n),
       Call_Module ''grdlandmask'' (build_arg_string c (default_outgrid kw n)),
       Session_Exit] @ rest \<and> (\<forall>ev\<in>set rest. \<not> session_event ev)"
    if l: "session_enter c = Inr ()"
  proof -
    define rest where "rest =
      (case fst (session_block c kw n) of
         Inl x \<Rightarrow> []
       | Inr outgrid \<Rightarrow> snd (result_block c outgrid n)) @ [GMTTempFile_Exit n]"
    have "snd (grdlandmask c kw) =
        [GMTTempFile_Enter ''.nc'', Session_Enter, Build_Arg_String (default_outgrid kw n),
         Call_Module ''grdlandmask'' (build_arg_string c (default_outgrid kw n)),
         Session_Exit] @ rest"
      using assms l unfolding rest_def n_def by (simp add: snd_valid snd_session_block)
    moreover have "\<forall>ev\<in>set rest. \<not> session_event ev"
      using result_block_no_session[of c _ n] by (auto simp: rest_def split: sum.splits)
    ultimately show ?thesis by blast
  qed
  have failed: "grdlandmask c kw =
      (Inl (External e), [GMTTempFile_Enter ''.nc'', Session_Enter, GMTTempFile_Exit n])"
    if "session_enter c = Inl e" for e
  proof -
    obtain v where v: "map_of (default_outgrid kw n) ''G'' = Some v"
      using outgrid_bound by blast
    show ?thesis
      using assms that v unfolding n_def
      by (simp add: prod_eq_iff fst_valid snd_valid fst_session_block snd_session_block)
  qed
  from opened failed show ?thesis unfolding n_def by blast
qed

theorem dispatcher_called_once_in_session_witness:
  "(\<exists>rest. snd (grdlandmask quiet [(''I'', PStr ''0.5''), (''R'', PStr ''125/130/30/35'')]) =
       [GMTTempFile_Enter ''.nc'', Session_Enter,
        Build_Arg_String
          [(''I'', PStr ''0.5''), (''R'', PStr ''125/130/30/35''), (''G'', PStr ''pygmt-tmp.nc'')],
        Call_Module ''grdlandmask'' ''-I -R -G '', Session_Exit] @ rest \<and>
       (\<forall>ev\<in>set rest. \<not> session_event ev)) \<and>
   grdlandmask (quiet\<lparr>session_enter := Inl ''GMTCLibError''\<rparr>)
       [(''I'', PStr ''0.5''), (''R'', PStr ''125/130/30/35'')] =
     (Inl (External ''GMTCLibError''),
      [GMTTempFile_Enter ''.nc'', Session_Enter, GMTTempFile_Exit ''pygmt-tmp.nc''])"
  using dispatcher_called_once_in_session
      [of "[(''I'', PStr ''0.5''), (''R'', PStr ''125/130/30/35'')]" quiet]
    dispatcher_called_once_in_session
      [of "[(''I'', PStr ''0.5''), (''R'', PStr ''125/130/30/35'')]"
        "quiet\<lparr>session_enter := Inl ''GMTCLibError''\<rparr>"]
  by (simp add: keys_def quiet_def default_outgrid_def)

theorem dispatcher_not_reached_when_session_fails:
  "''I'' \<in> set (keys [(''I'', PStr ''0.5''), (''R'', PStr ''125/130/30/35'')]) \<and>
   ''R'' \<in> set (keys [(''I'', PStr ''0.5''), (''R'', PStr ''125/130/30/35'')]) \<and>
   snd (grdlandmask (quiet\<lparr>session_enter := Inl ''GMTCLibError''\<rparr>)
          [(''I'', PStr ''0.5''), (''R'', PStr ''125/130/30/35'')]) =
     [GMTTempFile_Enter ''.nc'', Session_Enter, GMTTempFile_Exit ''pygmt-tmp.nc''] \<and>
   length (filter dispatch
     (snd (grdlandmask (quiet\<lparr>session_enter := Inl ''GMTCLibError''\<rparr>)
            [(''I'', PStr ''0.5''), (''R'', PStr ''125/130/30/35'')]))) = 0"
  by (simp add: run_session_raises keys_def)

text \<open>
  Claim C4. On a call that passes the check and has no key \<open>G\<close>, the dictionary that
  \<open>build_arg_string\<close> receives is \<open>kwargs\<close> with \<open>G\<close> bound to the name of the temporary
  file, and the string that the dispatcher receives is the one built from that
  dictionary: whenever an argument string is built or passed on, the output grid has
  been set before. Both calls happen as soon as the session opens.
\<close>

theorem default_outgrid_before_arg_string:
  assumes "''I'' \<in> set (keys kw)" "''R'' \<in> set (keys kw)" "''G'' \<notin> set (keys kw)"
  shows "(\<forall>kw'. Build_Arg_String kw' \<in> set (snd (grdlandmask c kw)) \<longrightarrow>
            kw' = AList.update ''G'' (PStr (tempfile_name c ''.nc'')) kw \<and>
            map_of kw' ''G'' = Some (PStr (tempfile_name c ''.nc''))) \<and>
         (\<forall>m s. Call_Module m s \<in> set (snd (grdlandmask c kw)) \<longrightarrow>
            s = build_arg_string c (AList.update ''G'' (PStr (tempfile_name c ''.nc'')) kw)) \<and>
         (session_enter c = Inr () \<longrightarrow>
            (\<exists>rest. snd (grdlandmask c kw) =
               [GMTTempFile_Enter ''.nc'', Session_Enter,
                Build_Arg_String (AList.update ''G'' (PStr (tempfile_name c ''.nc'')) kw),
                Call_Module ''grdlandmask''
                  (build_arg_string c
                     (AList.update ''G'' (PStr (tempfile_name c ''.nc'')) kw))] @ rest))"
proof -
  have d: "default_outgrid kw n = AList.update ''G'' (PStr n) kw" for n
    using assms(3) by (simp add: default_outgrid_def)
  show ?thesis
    using assms(1,2)
    by (auto simp: snd_valid snd_session_block snd_result_block d update_conv'
        split: sum.splits if_splits)
qed

theorem default_outgrid_before_arg_string_witness:
  "''G'' \<notin> set (keys [(''I'', PStr ''0.5''), (''R'', PStr ''125/130/30/35'')]) \<and>
   (\<exists>rest. snd (grdlandmask quiet [(''I'', PStr ''0.5''), (''R'', PStr ''125/130/30/35'')]) =
      [GMTTempFile_Enter ''.nc'', Session_Enter,
       Build_Arg_String
         [(''I'', PStr ''0.5''), (''R'', PStr ''125/130/30/35''), (''G'', PStr ''pygmt-tmp.nc'')],
       Call_Module ''grdlandmask'' ''-I -R -G ''] @ rest)"
  using default_outgrid_before_arg_string
    [of "[(''I'', PStr ''0.5''), (''R'', PStr ''125/130/30/35'')]" quiet]
  by (simp add: keys_def quiet_def)

section \<open>What the call returns\<close>

text \<open>
  Claim C10. When the call returns an array, that array is what \<open>dataarray.load()\<close>
  read from the temporary file, and the trace ends with opening the file, loading it,
  reading the accessor, closing the file and, only then, releasing the temporary file:
  the data is in memory and the handle is closed before the file goes away.
\<close>

theorem loaded_and_closed_before_release:
  assumes "fst (grdlandmask c kw) = Inr (Some a)"
  shows "\<exists>h pre. snd (grdlandmask c kw) =
           pre @ [Open_DataArray (PStr (tempfile_name c ''.nc'')), Load h, Gmt a, Close h,
                  GMTTempFile_Exit (tempfile_name c ''.nc'')] \<and>
           open_dataarray c (PStr (tempfile_name c ''.nc'')) = Inr h \<and>
           load c h = Inr a \<and> close c h = Inr ()"
proof -
  define n where "n = tempfile_name c ''.nc''"
  from returns_cases[OF assms] obtain v where
    sb: "fst (session_block c kw n) = Inr v" and
    rb: "fst (result_block c v n) = Inr (Some a)"
    unfolding n_def by blast
  from result_block_some[OF rb] obtain h where
    h: "open_dataarray c (PStr n) = Inr h" "load c h = Inr a" "close c h = Inr ()" and
    t: "snd (result_block c v n) = [Open_DataArray (PStr n), Load h, Gmt a, Close h]"
    by blast
  have "snd (grdlandmask c kw) =
      (GMTTempFile_Enter ''.nc'' # snd (session_block c kw n)) @
      [Open_DataArray (PStr n), Load h, Gmt a, Close h, GMTTempFile_Exit n]"
    using returns_valid[OF assms] sb t unfolding n_def by (simp add: snd_valid)
  with h show ?thesis unfolding n_def by blast
qed

theorem loaded_and_closed_before_release_witness:
  "fst (grdlandmask quiet [(''I'', PStr ''0.5''), (''R'', PStr ''125/130/30/35'')]) =
     Inr (Some [1, 0, 1, 1]) \<and>
   (\<exists>h pre. snd (grdlandmask quiet [(''I'', PStr ''0.5''), (''R'', PStr ''125/130/30/35'')]) =
      pre @ [Open_DataArray (PStr ''pygmt-tmp.nc''), Load h, Gmt [1, 0, 1, 1], Close h,
             GMTTempFile_Exit ''pygmt-tmp.nc''] \<and>
      open_dataarray quiet (PStr ''pygmt-tmp.nc'') = Inr h \<and>
      load quiet h = Inr [1, 0, 1, 1] \<and> close quiet h = Inr ())"
proof -
  have h: "fst (grdlandmask quiet [(''I'', PStr ''0.5''), (''R'', PStr ''125/130/30/35'')]) =
      Inr (Some [1, 0, 1, 1])"
    by (simp add: run_default)
  have n: "tempfile_name quiet ''.nc'' = ''pygmt-tmp.nc''"
    by (simp add: quiet_def)
  from loaded_and_closed_before_release [OF h] h show ?thesis
    unfolding n by blast
qed

text \<open>
  Claim C9. Which value comes back is decided by comparing the output grid in effect
  with the name of the temporary file, not by whether the caller gave \<open>G\<close>. A call that
  returns gives an array exactly when \<open>kwargs["G"]\<close>, after the default was filled in,
  is that name. So a caller's \<open>G\<close> that equals the name of the temporary file never
  gives \<open>None\<close>: what is returned is the loaded array. And a caller's \<open>G\<close> bound to \<open>None\<close>
  leaves the dictionary as it is, without the default, and never gives an array.
\<close>

theorem branch_by_name_equality:
  assumes "''I'' \<in> set (keys kw)" "''R'' \<in> set (keys kw)"
  shows "(\<forall>r. fst (grdlandmask c kw) = Inr r \<longrightarrow>
            (r \<noteq> None) =
            (map_of (default_outgrid kw (tempfile_name c ''.nc'')) ''G'' =
               Some (PStr (tempfile_name c ''.nc'')))) \<and>
         (map_of kw ''G'' = Some (PStr (tempfile_name c ''.nc'')) \<longrightarrow>
            fst (grdlandmask c kw) \<noteq> Inr None \<and>
            (\<forall>r. fst (grdlandmask c kw) = Inr r \<longrightarrow>
               (\<exists>h a. open_dataarray c (PStr (tempfile_name c ''.nc'')) = Inr h \<and>
                      load c h = Inr a \<and> r = Some a))) \<and>
         (map_of kw ''G'' = Some PNone \<longrightarrow>
            default_outgrid kw (tempfile_name c ''.nc'') = kw \<and>
            (\<forall>a. fst (grdlandmask c kw) \<noteq> Inr (Some a)))"
proof -
  define n where "n = tempfile_name c ''.nc''"
  have *: "(r \<noteq> None) = (map_of (default_outgrid kw n) ''G'' = Some (PStr n)) \<and>
      (r \<noteq> None \<longrightarrow>
         (\<exists>h a. open_dataarray c (PStr n) = Inr h \<and> load c h = Inr a \<and> r = Some a))"
    if "fst (grdlandmask c kw) = Inr r" for r
  proof -
    from returns_cases[OF that] obtain v where
      v: "map_of (default_outgrid kw n) ''G'' = Some v" and
      rb: "fst (result_block c v n) = Inr r"
      unfolding n_def by auto
    from rb v show ?thesis
      by (auto simp: fst_result_block split: sum.splits if_splits)
  qed
  have "(\<forall>r. fst (grdlandmask c kw) = Inr r \<longrightarrow>
            (r \<noteq> None) = (map_of (default_outgrid kw n) ''G'' = Some (PStr n))) \<and>
         (map_of kw ''G'' = Some (PStr n) \<longrightarrow>
            fst (grdlandmask c kw) \<noteq> Inr None \<and>
            (\<forall>r. fst (grdlandmask c kw) = Inr r \<longrightarrow>
               (\<exists>h a. open_dataarray c (PStr n) = Inr h \<and> load c h = Inr a \<and> r = Some a))) \<and>
         (map_of kw ''G'' = Some PNone \<longrightarrow>
            default_outgrid kw n = kw \<and> (\<forall>a. fst (grdlandmask c kw) \<noteq> Inr (Some a)))"
    using * by (auto simp: outgrid_present)
  then show ?thesis unfolding n_def .
qed

theorem branch_by_name_equality_witness:
  "fst (grdlandmask quiet
     [(''I'', PStr ''0.5''), (''R'', PStr ''125/130/30/35''), (''G'', PStr ''pygmt-tmp.nc'')]) =
     Inr (Some [1, 0, 1, 1]) \<and>
   fst (grdlandmask quiet
     [(''I'', PStr ''0.5''), (''R'', PStr ''125/130/30/35''), (''G'', PStr ''pygmt-tmp.nc'')]) \<noteq>
     Inr None \<and>
   fst (grdlandmask quiet
     [(''I'', PStr ''0.5''), (''R'', PStr ''125/130/30/35''), (''G'', PNone)]) = Inr None \<and>
   (\<forall>a. fst (grdlandmask quiet
     [(''I'', PStr ''0.5''), (''R'', PStr ''125/130/30/35''), (''G'', PNone)]) \<noteq> Inr (Some a)) \<and>
   default_outgrid [(''I'', PStr ''0.5''), (''R'', PStr ''125/130/30/35''), (''G'', PNone)]
     ''pygmt-tmp.nc'' = [(''I'', PStr ''0.5''), (''R'', PStr ''125/130/30/35''), (''G'', PNone)]"
proof -
  have n: "tempfile_name quiet ''.nc'' = ''pygmt-tmp.nc''"
    by (simp add: quiet_def)
  have same: "fst (grdlandmask quiet
      [(''I'', PStr ''0.5''), (''R'', PStr ''125/130/30/35''), (''G'', PStr ''pygmt-tmp.nc'')]) =
      Inr (Some [1, 0, 1, 1])"
    by (simp add: run_same_name)
  have none: "fst (grdlandmask quiet
      [(''I'', PStr ''0.5''), (''R'', PStr ''125/130/30/35''), (''G'', PNone)]) = Inr None"
    by (simp add: run_outgrid_none)
  from branch_by_name_equality
    [of "[(''I'', PStr ''0.5''), (''R'', PStr ''125/130/30/35''), (''G'', PStr ''pygmt-tmp.nc'')]"
      quiet]
  have a: "fst (grdlandmask quiet
      [(''I'', PStr ''0.5''), (''R'', PStr ''125/130/30/35''), (''G'', PStr ''pygmt-tmp.nc'')]) \<noteq>
      Inr None"
    by (simp add: keys_def n)
  from branch_by_name_equality
    [of "[(''I'', PStr ''0.5''), (''R'', PStr ''125/130/30/35''), (''G'', PNone)]" quiet]
  have b: "(\<forall>a. fst (grdlandmask quiet
      [(''I'', PStr ''0.5''), (''R'', PStr ''125/130/30/35''), (''G'', PNone)]) \<noteq> Inr (Some a)) \<and>
    default_outgrid [(''I'', PStr ''0.5''), (''R'', PStr ''125/130/30/35''), (''G'', PNone)]
      ''pygmt-tmp.nc'' = [(''I'', PStr ''0.5''), (''R'', PStr ''125/130/30/35''), (''G'', PNone)]"
    by (simp add: keys_def n)
  from same none a b show ?thesis by blast
qed



end
